theory Spec2Isabelle
  imports Main
begin

section \<open>The account model of \<open>apps/users/models.py\<close>\<close>

text \<open>
  The class \<open>CustomUser\<close> declares the columns of the table \<open>custom_user\<close> and nine
  methods. This theory embeds the columns as a record and the methods that read or change
  the lockout state and the display names as functions over it.

  Conventions of the embedding:
  \<^item> A Python \<open>str\<close> is the list of its Unicode code points.
  \<^item> A \<open>datetime\<close> is an instant, counted in microseconds (the resolution of
    \<open>datetime\<close>) from \<open>datetime.min\<close>, the start of the year 1; \<open>timezone.now()\<close> reads a
    clock, so every method that calls it takes the instant it reads as the argument \<open>now\<close>.
  \<^item> \<open>duration_minutes\<close> is a Python \<open>int\<close> or \<open>float\<close>, the two types
    \<open>timedelta(minutes=...)\<close> takes. \<open>timedelta\<close> and the addition of a \<open>timedelta\<close> to a
    \<open>datetime\<close> raise \<open>OverflowError\<close> outside their ranges; the raised exception is part
    of what \<open>lock_account\<close> returns.
  \<^item> A method that assigns to \<open>self\<close> and calls \<open>self.save(update_fields=[...])\<close> takes
    and returns the object in memory together with its stored row and the list of the
    \<open>save\<close> calls made so far.
\<close>

subsection \<open>Strings and instants\<close>

type_synonym str = "nat list"

type_synonym datetime = int

definition py_str :: "string \<Rightarrow> str" where
  "py_str s = map of_char s"

text \<open>
  The code points \<open>str.strip()\<close> removes when called without an argument: the ones for
  which \<open>str.isspace\<close> holds (tab to carriage return, the four separators \<open>0x1C\<close> to
  \<open>0x1F\<close>, space, \<open>0x85\<close>, \<open>0xA0\<close>, \<open>0x1680\<close>, \<open>0x2000\<close> to \<open>0x200A\<close>, \<open>0x2028\<close>,
  \<open>0x2029\<close>, \<open>0x202F\<close>, \<open>0x205F\<close>, \<open>0x3000\<close>).
\<close>

definition isspace :: "nat \<Rightarrow> bool" where
  "isspace c =
     ((9 \<le> c \<and> c \<le> 13) \<or> (28 \<le> c \<and> c \<le> 32) \<or> c = 133 \<or> c = 160 \<or> c = 5760 \<or>
      (8192 \<le> c \<and> c \<le> 8202) \<or> c = 8232 \<or> c = 8233 \<or> c = 8239 \<or> c = 8287 \<or>
      c = 12288)"

definition lstrip :: "str \<Rightarrow> str" where
  "lstrip s = dropWhile isspace s"

definition rstrip :: "str \<Rightarrow> str" where
  "rstrip s = rev (dropWhile isspace (rev s))"

definition strip :: "str \<Rightarrow> str" where
  "strip s = rstrip (lstrip s)"

subsection \<open>Numbers, \<open>timedelta\<close> and \<open>datetime\<close> arithmetic\<close>

text \<open>
  The argument of \<open>lock_account\<close>: an \<open>int\<close>, or a \<open>float\<close>. \<open>PyFloat m e\<close> is the
  finite double \<open>m\<close> times two to the power \<open>e\<close> (so \<open>PyFloat 5 (- 1)\<close> is \<open>2.5\<close>); every
  finite double has this form, with \<open>m\<close> below \<open>2 ^ 53\<close> in magnitude and \<open>e\<close> from \<open>-1074\<close>
  to \<open>971\<close>. The other three are \<open>float('inf')\<close>, \<open>float('-inf')\<close> and \<open>float('nan')\<close>.
\<close>

datatype number = PyInt int | PyFloat int int | PyInf | PyNegInf | PyNaN

datatype error = OverflowError | ValueError



text \<open>\<open>int.bit_length\<close> of a non-negative \<open>int\<close>: the number of its binary digits.\<close>

function bit_length :: "int \<Rightarrow> nat" where
  "bit_length n = (if n \<le> 0 then 0 else Suc (bit_length (n div 2)))"
  by pat_completeness auto
termination
  by (relation "measure nat") auto

declare bit_length.simps [simp del]

text \<open>The quotient \<open>a / b\<close> for \<open>b > 0\<close>, rounded to the nearest integer, a tie to the even one.\<close>

definition round_half_even :: "int \<Rightarrow> int \<Rightarrow> int" where
  "round_half_even a b =
     (let q = a div b; r = a mod b
      in if 2 * r < b then q else if b < 2 * r then q + 1 else if even q then q else q + 1)"

text \<open>
  The microseconds \<open>timedelta(minutes=x)\<close> holds for the finite double \<open>x = m * 2 ^ e\<close>, as
  CPython's \<open>datetime\<close> module computes them. \<open>modf\<close> splits \<open>x\<close> into its integer part
  (rounded towards zero) and its fraction. The integer part times sixty million is exact.
  The fraction times sixty million is a product of doubles, rounded to 53 significant
  bits, a tie to the even one. The sum of the two is rounded to the nearest whole
  microsecond, a tie to the even one.

  With \<open>D = 2 ^ (- e)\<close>, \<open>truncate_div m D\<close> is the integer part of \<open>m / D\<close>, and
  \<open>round_to_double P\<close> is the numerator of \<open>P / D\<close> after rounding to 53 significant bits.
\<close>

definition truncate_div :: "int \<Rightarrow> int \<Rightarrow> int" where
  "truncate_div m D = (if 0 \<le> m then m div D else - ((- m) div D))"

definition round_to_double :: "int \<Rightarrow> int" where
  "round_to_double P =
     (let drop = int (bit_length \<bar>P\<bar>) - 53
      in if drop \<le> 0 then P else round_half_even P (2 ^ nat drop) * 2 ^ nat drop)"

definition float_microseconds :: "int \<Rightarrow> int \<Rightarrow> int" where
  "float_microseconds m e =
     (if 0 \<le> e then m * 2 ^ nat e * 60000000
      else
        let D = 2 ^ nat (- e);
            intpart = truncate_div m D;
            fracpart = m - intpart * D;
            dnum = round_to_double (60000000 * fracpart)
        in round_half_even (intpart * 60000000 * D + dnum) D)"

text \<open>
  A \<open>timedelta\<close> holds between \<open>-999999999\<close> and \<open>999999999\<close> days; the constructor raises
  \<open>OverflowError\<close> beyond.
\<close>

definition timedelta_microseconds :: "int \<Rightarrow> error + int" where
  "timedelta_microseconds us =
     (let days = us div 86400000000
      in if days < - 999999999 \<or> 999999999 < days then Inl OverflowError else Inr us)"

text \<open>\<open>timedelta(minutes=d)\<close>, in microseconds.\<close>

fun timedelta_minutes :: "number \<Rightarrow> error + int" where
  "timedelta_minutes (PyInt n) = timedelta_microseconds (n * 60000000)"
| "timedelta_minutes (PyFloat m e) = timedelta_microseconds (float_microseconds m e)"
| "timedelta_minutes PyInf = Inl OverflowError"
| "timedelta_minutes PyNegInf = Inl OverflowError"
| "timedelta_minutes PyNaN = Inl ValueError"

text \<open>
  \<open>datetime + timedelta\<close>: the sum, or \<open>OverflowError\<close> when it is not between
  \<open>datetime.min\<close> (instant \<open>0\<close>) and \<open>datetime.max\<close>, the last microsecond of the year 9999
  (3652059 days after \<open>datetime.min\<close>, less one microsecond).
\<close>

definition datetime_max :: datetime where
  "datetime_max = 3652059 * 86400000000 - 1"

definition datetime_add :: "datetime \<Rightarrow> int \<Rightarrow> error + datetime" where
  "datetime_add t delta =
     (if 0 \<le> t + delta \<and> t + delta \<le> datetime_max then Inr (t + delta)
      else Inl OverflowError)"

subsection \<open>The columns of \<open>CustomUser\<close>\<close>

record custom_user =
  username :: str
  email :: str
  first_name :: str
  last_name :: str
  role :: "str option"
  is_active :: bool
  date_joined :: datetime
  is_staff :: bool
  is_superuser :: bool
  phone_number :: "str option"
  is_email_verified :: bool
  is_2fa_enabled :: bool
  failed_login_attempts :: int
  locked_until :: "datetime option"
  last_login_ip :: "str option"
  profile_picture :: "str option"
  bio :: "str option"

text \<open>The names a caller can put in \<open>update_fields\<close>.\<close>

datatype column =
    Col_username | Col_email | Col_first_name | Col_last_name | Col_role | Col_is_active
  | Col_date_joined | Col_is_staff | Col_is_superuser | Col_phone_number
  | Col_is_email_verified | Col_is_2fa_enabled | Col_failed_login_attempts
  | Col_locked_until | Col_last_login_ip | Col_profile_picture | Col_bio

subsection \<open>Saving named columns\<close>

text \<open>
  \<open>self.save(update_fields=fs)\<close> is Django's \<open>Model.save\<close>: it issues one \<open>UPDATE\<close> of
  the object's row that sets the columns named in \<open>fs\<close> to the values the object holds
  and leaves every other column of the row as it is. \<open>write_column c self r\<close> is the row
  \<open>r\<close> with column \<open>c\<close> taken from \<open>self\<close>.
\<close>

fun write_column :: "column \<Rightarrow> custom_user \<Rightarrow> custom_user \<Rightarrow> custom_user" where
  "write_column Col_username self r = r\<lparr>username := username self\<rparr>"
| "write_column Col_email self r = r\<lparr>email := email self\<rparr>"
| "write_column Col_first_name self r = r\<lparr>first_name := first_name self\<rparr>"
| "write_column Col_last_name self r = r\<lparr>last_name := last_name self\<rparr>"
| "write_column Col_role self r = r\<lparr>role := role self\<rparr>"
| "write_column Col_is_active self r = r\<lparr>is_active := is_active self\<rparr>"
| "write_column Col_date_joined self r = r\<lparr>date_joined := date_joined self\<rparr>"
| "write_column Col_is_staff self r = r\<lparr>is_staff := is_staff self\<rparr>"
| "write_column Col_is_superuser self r = r\<lparr>is_superuser := is_superuser self\<rparr>"
| "write_column Col_phone_number self r = r\<lparr>phone_number := phone_number self\<rparr>"
| "write_column Col_is_email_verified self r =
     r\<lparr>is_email_verified := is_email_verified self\<rparr>"
| "write_column Col_is_2fa_enabled self r = r\<lparr>is_2fa_enabled := is_2fa_enabled self\<rparr>"
| "write_column Col_failed_login_attempts self r =
     r\<lparr>failed_login_attempts := failed_login_attempts self\<rparr>"
| "write_column Col_locked_until self r = r\<lparr>locked_until := locked_until self\<rparr>"
| "write_column Col_last_login_ip self r = r\<lparr>last_login_ip := last_login_ip self\<rparr>"
| "write_column Col_profile_picture self r =
     r\<lparr>profile_picture := profile_picture self\<rparr>"
| "write_column Col_bio self r = r\<lparr>bio := bio self\<rparr>"

text \<open>
  The state a method runs in: \<open>inst\<close> is the object \<open>self\<close> in memory, \<open>stored\<close> is
  its row, \<open>saves\<close> lists the \<open>update_fields\<close> of the \<open>save\<close> calls made, oldest first.
\<close>

record account =
  inst :: custom_user
  stored :: custom_user
  saves :: "column list list"

definition save :: "column list \<Rightarrow> account \<Rightarrow> account" where
  "save update_fields a =
     a\<lparr>stored := foldl (\<lambda>r c. write_column c (inst a) r) (stored a) update_fields,
       saves := saves a @ [update_fields]\<rparr>"

subsection \<open>The methods\<close>

definition get_full_name :: "custom_user \<Rightarrow> str" where
  "get_full_name self = strip (first_name self @ [32] @ last_name self)"

definition get_short_name :: "custom_user \<Rightarrow> str" where
  "get_short_name self = (if first_name self \<noteq> [] then first_name self else username self)"

definition can_login :: "datetime \<Rightarrow> custom_user \<Rightarrow> bool" where
  "can_login now self =
     (is_active self \<and> (case locked_until self of None \<Rightarrow> True | Some t \<Rightarrow> t < now))"

definition increment_failed_logins :: "account \<Rightarrow> int \<times> account" where
  "increment_failed_logins a =
     (let a1 = a\<lparr>inst := (inst a)\<lparr>failed_login_attempts :=
                  failed_login_attempts (inst a) + 1\<rparr>\<rparr>;
          a2 = save [Col_failed_login_attempts] a1
      in (failed_login_attempts (inst a2), a2))"

definition reset_failed_logins :: "account \<Rightarrow> account" where
  "reset_failed_logins a =
     (let a1 = a\<lparr>inst := (inst a)\<lparr>failed_login_attempts := 0\<rparr>\<rparr>;
          a2 = a1\<lparr>inst := (inst a1)\<lparr>locked_until := None\<rparr>\<rparr>
      in save [Col_failed_login_attempts, Col_locked_until] a2)"

text \<open>
  The right-hand side of the assignment in \<open>lock_account\<close>,
  \<open>timezone.now() + timedelta(minutes=duration_minutes)\<close>.
\<close>

definition lock_deadline :: "datetime \<Rightarrow> number \<Rightarrow> error + datetime" where
  "lock_deadline now duration_minutes =
     (case timedelta_minutes duration_minutes of
        Inl e \<Rightarrow> Inl e
      | Inr delta \<Rightarrow> datetime_add now delta)"

text \<open>
  \<open>lock_account\<close> returns the exception it raised, if any, and the account as the call
  leaves it. An exception comes from the right-hand side, before the assignment and the
  \<open>save\<close>, so the account is then as it was.
\<close>

definition lock_account :: "datetime \<Rightarrow> number \<Rightarrow> account \<Rightarrow> error option \<times> account" where
  "lock_account now duration_minutes a =
     (case lock_deadline now duration_minutes of
        Inl e \<Rightarrow> (Some e, a)
      | Inr t \<Rightarrow>
          (let a1 = a\<lparr>inst := (inst a)\<lparr>locked_until := Some t\<rparr>\<rparr>
           in (None, save [Col_locked_until] a1)))"

text \<open>The call \<open>lock_account()\<close>, with the default \<open>duration_minutes=5\<close>.\<close>

definition lock_account_default :: "datetime \<Rightarrow> account \<Rightarrow> error option \<times> account" where
  "lock_account_default now a = lock_account now (PyInt 5) a"

definition is_account_locked :: "datetime \<Rightarrow> custom_user \<Rightarrow> bool" where
  "is_account_locked now self =
     (case locked_until self of None \<Rightarrow> False | Some t \<Rightarrow> t > now)"

subsection \<open>Calling sequences and sample accounts\<close>

text \<open>\<open>n\<close> calls of \<open>increment_failed_logins\<close> in a row, the return values dropped.\<close>

fun failed_logins :: "nat \<Rightarrow> account \<Rightarrow> account" where
  "failed_logins 0 a = a"
| "failed_logins (Suc n) a = failed_logins n (snd (increment_failed_logins a))"


text \<open>
  A freshly registered user with the defaults of the columns, and the account whose
  object and row both hold it.
\<close>

definition jdoe :: custom_user where
  "jdoe = \<lparr>username = py_str ''jdoe'', email = py_str ''jdoe@example.org'',
     first_name = [], last_name = [], role = None, is_active = True, date_joined = 0,
     is_staff = False, is_superuser = False, phone_number = None,
     is_email_verified = False, is_2fa_enabled = False, failed_login_attempts = 0,
     locked_until = None, last_login_ip = None, profile_picture = None, bio = None\<rparr>"

definition ann :: custom_user where
  "ann = jdoe\<lparr>username := py_str ''alee'', first_name := py_str ''Ann'',
     last_name := py_str ''Lee''\<rparr>"

definition jdoe_account :: account where
  "jdoe_account = \<lparr>inst = jdoe, stored = jdoe, saves = []\<rparr>"



section \<open>Login eligibility and lock queries\<close>

lemma can_login_iff:
  "can_login now self \<longleftrightarrow>
     is_active self \<and> (locked_until self = None \<or> (\<exists>t. locked_until self = Some t \<and> t < now))"
  by (cases "locked_until self") (simp_all add: can_login_def)

lemma is_account_locked_iff:
  "is_account_locked now self \<longleftrightarrow> (\<exists>t. locked_until self = Some t \<and> now < t)"
  by (cases "locked_until self") (simp_all add: is_account_locked_def)

text \<open>
  Claim C1. \<open>can_login\<close> is true exactly when the user is active and \<open>locked_until\<close> is
  either absent or strictly before the current instant; a user that is not active cannot
  log in, whatever \<open>failed_login_attempts\<close> and \<open>locked_until\<close> hold.
\<close>

theorem can_login_spec:
  "(can_login now self \<longleftrightarrow>
      is_active self \<and>
      (locked_until self = None \<or> (\<exists>t. locked_until self = Some t \<and> t < now)))
   \<and> can_login now (self\<lparr>is_active := False, failed_login_attempts := n,
        locked_until := l\<rparr>) = False"
  by (simp add: can_login_iff)

text \<open>
  Claim C8. \<open>is_account_locked\<close> is true exactly when \<open>locked_until\<close> is present and
  strictly after the current instant. \<open>is_active\<close> plays no part: changing it leaves the
  answer as it is, and a deactivated user with a later \<open>locked_until\<close> is reported locked.
\<close>

theorem is_account_locked_spec:
  "(is_account_locked now self \<longleftrightarrow>
      locked_until self \<noteq> None \<and> (\<exists>t. locked_until self = Some t \<and> t > now))
   \<and> is_account_locked now (self\<lparr>is_active := b\<rparr>) = is_account_locked now self
   \<and> is_account_locked now (self\<lparr>is_active := False, locked_until := Some (now + 1)\<rparr>)"
  by (auto simp add: is_account_locked_iff)

text \<open>
  Claim C10. At the instant that equals \<open>locked_until\<close>, an active user can neither log
  in nor is reported locked: both comparisons are strict.
\<close>

theorem boundary_instant:
  "is_active self \<Longrightarrow> locked_until self = Some now \<Longrightarrow>
     \<not> can_login now self \<and> \<not> is_account_locked now self"
  by (simp add: can_login_def is_account_locked_def)

theorem boundary_instant_witness:
  "is_active (jdoe\<lparr>locked_until := Some 300000000\<rparr>)
   \<and> locked_until (jdoe\<lparr>locked_until := Some 300000000\<rparr>) = Some 300000000
   \<and> \<not> can_login 300000000 (jdoe\<lparr>locked_until := Some 300000000\<rparr>)
   \<and> \<not> is_account_locked 300000000 (jdoe\<lparr>locked_until := Some 300000000\<rparr>)"
  using boundary_instant [of "jdoe\<lparr>locked_until := Some 300000000\<rparr>" 300000000]
  by (simp add: jdoe_def)

section \<open>What the mutators leave behind\<close>

text \<open>
  \<open>increment_failed_logins\<close> and \<open>reset_failed_logins\<close> assign to the object and save
  the columns they name; the lemmas below give the object, the row and the list of
  \<open>save\<close> calls after each of them.
\<close>

lemma inst_increment:
  "inst (snd (increment_failed_logins a)) =
     (inst a)\<lparr>failed_login_attempts := failed_login_attempts (inst a) + 1\<rparr>"
  by (simp add: increment_failed_logins_def Let_def save_def)

lemma stored_increment:
  "stored (snd (increment_failed_logins a)) =
     (stored a)\<lparr>failed_login_attempts := failed_login_attempts (inst a) + 1\<rparr>"
  by (simp add: increment_failed_logins_def Let_def save_def)

lemma saves_increment:
  "saves (snd (increment_failed_logins a)) = saves a @ [[Col_failed_login_attempts]]"
  by (simp add: increment_failed_logins_def Let_def save_def)

lemma fst_increment:
  "fst (increment_failed_logins a) = failed_login_attempts (inst a) + 1"
  by (simp add: increment_failed_logins_def Let_def save_def)

lemma inst_reset:
  "inst (reset_failed_logins a) = (inst a)\<lparr>failed_login_attempts := 0, locked_until := None\<rparr>"
  by (simp add: reset_failed_logins_def Let_def save_def)

lemma stored_reset:
  "stored (reset_failed_logins a) = (stored a)\<lparr>failed_login_attempts := 0, locked_until := None\<rparr>"
  by (simp add: reset_failed_logins_def Let_def save_def)

lemma saves_reset:
  "saves (reset_failed_logins a) = saves a @ [[Col_failed_login_attempts, Col_locked_until]]"
  by (simp add: reset_failed_logins_def Let_def save_def)

lemma failed_logins_count:
  "failed_login_attempts (inst (failed_logins n a)) = failed_login_attempts (inst a) + int n"
  by (induction n arbitrary: a) (simp_all add: inst_increment)

subsection \<open>Failed and successful logins\<close>

text \<open>
  Claim C4. After \<open>reset_failed_logins\<close> the object holds \<open>failed_login_attempts = 0\<close>
  and \<open>locked_until = None\<close>, whatever it held before (also after any number of failed
  logins). Both columns go to the row in one \<open>save\<close> call, which names exactly these two;
  nothing else of the object or the row changes.
\<close>

theorem reset_spec:
  "failed_login_attempts (inst (reset_failed_logins a)) = 0
   \<and> locked_until (inst (reset_failed_logins a)) = None
   \<and> inst (reset_failed_logins a) = (inst a)\<lparr>failed_login_attempts := 0, locked_until := None\<rparr>
   \<and> stored (reset_failed_logins a) =
       (stored a)\<lparr>failed_login_attempts := 0, locked_until := None\<rparr>
   \<and> saves (reset_failed_logins a) = saves a @ [[Col_failed_login_attempts, Col_locked_until]]
   \<and> failed_login_attempts (inst (reset_failed_logins (failed_logins n a))) = 0"
  by (simp add: inst_reset stored_reset saves_reset)

text \<open>
  Claim C6. \<open>increment_failed_logins\<close> adds exactly one to \<open>failed_login_attempts\<close> and
  returns the new count, which is also the count it stores; \<open>n\<close> calls add \<open>n\<close>, so from
  a count of zero they leave the count \<open>n\<close>.
\<close>

theorem increment_spec:
  "fst (increment_failed_logins a) = failed_login_attempts (inst a) + 1
   \<and> failed_login_attempts (inst (snd (increment_failed_logins a))) =
       failed_login_attempts (inst a) + 1
   \<and> failed_login_attempts (stored (snd (increment_failed_logins a))) =
       fst (increment_failed_logins a)
   \<and> failed_login_attempts (inst (failed_logins n a)) =
       failed_login_attempts (inst a) + int n
   \<and> (failed_login_attempts (inst a) = 0 \<longrightarrow>
        failed_login_attempts (inst (failed_logins n a)) = int n)"
  by (simp add: fst_increment inst_increment stored_increment failed_logins_count)

theorem increment_spec_witness:
  "failed_login_attempts (inst jdoe_account) = 0
   \<and> fst (increment_failed_logins jdoe_account) = 1
   \<and> failed_login_attempts (inst (failed_logins 3 jdoe_account)) = 3"
proof -
  have "failed_login_attempts (inst jdoe_account) = 0"
    by (simp add: jdoe_account_def jdoe_def)
  then show ?thesis using increment_spec [of jdoe_account 3] by simp
qed

text \<open>
  Claim C9. \<open>increment_failed_logins\<close> changes \<open>failed_login_attempts\<close> and nothing else,
  in the object and in the row: \<open>locked_until\<close> and \<open>is_active\<close> are as before, so the
  answers of \<open>is_account_locked\<close> and \<open>can_login\<close> are as before at every instant, and the
  one \<open>save\<close> call names the column \<open>failed_login_attempts\<close> alone.
\<close>

theorem increment_frame:
  "inst (snd (increment_failed_logins a)) =
     (inst a)\<lparr>failed_login_attempts := failed_login_attempts (inst a) + 1\<rparr>
   \<and> stored (snd (increment_failed_logins a)) =
       (stored a)\<lparr>failed_login_attempts := failed_login_attempts (inst a) + 1\<rparr>
   \<and> saves (snd (increment_failed_logins a)) = saves a @ [[Col_failed_login_attempts]]
   \<and> locked_until (inst (snd (increment_failed_logins a))) = locked_until (inst a)
   \<and> is_active (inst (snd (increment_failed_logins a))) = is_active (inst a)
   \<and> is_account_locked now (inst (snd (increment_failed_logins a))) =
       is_account_locked now (inst a)
   \<and> can_login now (inst (snd (increment_failed_logins a))) = can_login now (inst a)"
  by (simp add: inst_increment stored_increment saves_increment is_account_locked_def
      can_login_def)

subsection \<open>Durations and deadlines\<close>























subsection \<open>Locking\<close>

















section \<open>Names\<close>

text \<open>
  \<open>strip\<close> removes a prefix and a suffix of white space, and what it leaves neither
  starts nor ends with white space.
\<close>

lemma strip_decomp:
  "\<exists>pre suf. s = pre @ strip s @ suf \<and> list_all isspace pre \<and> list_all isspace suf"
proof -
  let ?t = "dropWhile isspace s"
  have 1: "s = takeWhile isspace s @ ?t" by simp
  have "rev (dropWhile isspace (rev ?t)) @ rev (takeWhile isspace (rev ?t)) =
      rev (takeWhile isspace (rev ?t) @ dropWhile isspace (rev ?t))"
    by (simp only: rev_append)
  also have "\<dots> = ?t"
    by (simp only: takeWhile_dropWhile_id rev_rev_ident)
  finally have 2: "?t = strip s @ rev (takeWhile isspace (rev ?t))"
    by (simp add: strip_def lstrip_def rstrip_def)
  have 3: "list_all isspace (takeWhile isspace s)"
    by (simp add: list_all_iff) (meson set_takeWhileD)
  have 4: "list_all isspace (rev (takeWhile isspace (rev ?t)))"
    by (simp add: list_all_iff) (meson set_takeWhileD)
  from 1 2 have "s = takeWhile isspace s @ strip s @ rev (takeWhile isspace (rev ?t))"
    by simp
  with 3 4 show ?thesis by blast
qed

lemma strip_ends:
  assumes "strip s \<noteq> []"
  shows "\<not> isspace (hd (strip s)) \<and> \<not> isspace (last (strip s))"
proof -
  let ?t = "dropWhile isspace s"
  let ?u = "dropWhile isspace (rev ?t)"
  from assms have u: "?u \<noteq> []" by (simp add: strip_def lstrip_def rstrip_def)
  have "?t = [] \<Longrightarrow> ?u = []" by (simp only: rev.simps dropWhile.simps)
  with u have t: "?t \<noteq> []" by blast
  have "last (strip s) = hd ?u" using u
    by (simp add: strip_def lstrip_def rstrip_def last_rev)
  moreover have "\<not> isspace (hd ?u)" using u by (rule hd_dropWhile)
  moreover have h: "\<not> isspace (hd ?t)" using t by (rule hd_dropWhile)
  moreover have "hd (strip s) = hd ?t"
  proof -
    have "hd (strip s) = last ?u" using u
      by (simp add: strip_def lstrip_def rstrip_def hd_rev)
    also have "\<dots> = last (rev ?t)"
    proof (rule dropWhile_last)
      show "hd ?t \<in> set (rev ?t)" using t by simp
      show "\<not> isspace (hd ?t)" by (rule h)
    qed
    also have "\<dots> = hd ?t" using t by (simp add: last_rev)
    finally show ?thesis .
  qed
  ultimately show ?thesis by simp
qed

text \<open>
  The class has two name methods and neither falls back from the full name: for a user
  without first and last name \<open>get_full_name\<close> is the empty string, not the username,
  and for Ann Lee \<open>get_short_name\<close> is the first name alone.
\<close>

theorem names_counterexample:
  "first_name jdoe = [] \<and> last_name jdoe = [] \<and> username jdoe = py_str ''jdoe''
   \<and> get_full_name jdoe = [] \<and> get_full_name jdoe \<noteq> py_str ''jdoe''
   \<and> strip (first_name ann @ [32] @ last_name ann) = py_str ''Ann Lee''
   \<and> get_short_name ann = py_str ''Ann'' \<and> get_short_name ann \<noteq> py_str ''Ann Lee''"
  by (simp add: get_full_name_def get_short_name_def ann_def jdoe_def strip_def lstrip_def
      rstrip_def isspace_def py_str_def)

text \<open>
  Claim C3, as the code has it. \<open>get_full_name\<close> is the first name, a space and the last
  name, stripped: what is cut off at either end is white space and the result neither
  starts nor ends with white space. It has no fallback. \<open>get_short_name\<close> is the first
  name if that is not empty and the username otherwise. For a user whose first and last
  name are empty, \<open>get_short_name\<close> is the username and \<open>get_full_name\<close> is empty.
\<close>

theorem names_spec:
  "get_full_name self = strip (first_name self @ [32] @ last_name self)
   \<and> (\<exists>pre suf. first_name self @ [32] @ last_name self = pre @ get_full_name self @ suf
        \<and> list_all isspace pre \<and> list_all isspace suf)
   \<and> (get_full_name self \<noteq> [] \<longrightarrow>
        \<not> isspace (hd (get_full_name self)) \<and> \<not> isspace (last (get_full_name self)))
   \<and> get_short_name self = (if first_name self \<noteq> [] then first_name self else username self)
   \<and> (first_name self = [] \<and> last_name self = [] \<longrightarrow>
        get_short_name self = username self \<and> get_full_name self = [])"
proof -
  have "first_name self = [] \<and> last_name self = [] \<longrightarrow> get_full_name self = []"
    by (simp add: get_full_name_def strip_def lstrip_def rstrip_def isspace_def)
  then show ?thesis
    using strip_decomp [of "first_name self @ [32] @ last_name self"]
      strip_ends [of "first_name self @ [32] @ last_name self"]
    by (simp add: get_full_name_def get_short_name_def)
qed

theorem names_spec_witness:
  "first_name jdoe = [] \<and> last_name jdoe = []
   \<and> get_short_name jdoe = py_str ''jdoe'' \<and> get_full_name jdoe = []
   \<and> get_full_name ann = py_str ''Ann Lee'' \<and> get_full_name ann \<noteq> []
   \<and> \<not> isspace (hd (get_full_name ann)) \<and> \<not> isspace (last (get_full_name ann))"
proof -
  have 1: "get_full_name ann = py_str ''Ann Lee''"
    by (simp add: get_full_name_def ann_def jdoe_def strip_def lstrip_def
      rstrip_def isspace_def py_str_def)
  have 2: "py_str ''Ann Lee'' \<noteq> []" by (simp add: py_str_def)
  have 3: "first_name jdoe = [] \<and> last_name jdoe = [] \<and> username jdoe = py_str ''jdoe''"
    by (simp add: jdoe_def)
  from 1 2 have 4: "get_full_name ann \<noteq> []" by simp
  have 5: "get_short_name jdoe = username jdoe \<and> get_full_name jdoe = []"
    using names_spec [of jdoe] 3 by blast
  have 6: "\<not> isspace (hd (get_full_name ann)) \<and> \<not> isspace (last (get_full_name ann))"
    using names_spec [of ann] 4 by blast
  show ?thesis using 1 3 4 5 6 by simp
qed

end
